theory Spec2Isabelle
  imports Main "HOL-Library.Word"
begin

section \<open>JavaScript strings\<close>

text \<open>
  A JavaScript string is a sequence of UTF-16 code units. The empty string is the only
  falsy string.
\<close>

type_synonym jsstring = "16 word list"

definition ascii :: "string \<Rightarrow> jsstring" where
  "ascii cs = map of_char cs"

text \<open>
  \<open>String.prototype.trim\<close> strips the ECMAScript WhiteSpace and LineTerminator code
  points from both ends: TAB, LF, VT, FF, CR, SPACE, NBSP, U+1680, U+2000 to U+200A,
  U+2028, U+2029, U+202F, U+205F, U+3000 and U+FEFF. All of them are single code units.
\<close>

definition isWhiteSpace :: "16 word \<Rightarrow> bool" where
  "isWhiteSpace c =
     (c = 0x0009 \<or> c = 0x000A \<or> c = 0x000B \<or> c = 0x000C \<or> c = 0x000D \<or> c = 0x0020
      \<or> c = 0x00A0 \<or> c = 0x1680 \<or> (0x2000 \<le> c \<and> c \<le> 0x200A) \<or> c = 0x2028
      \<or> c = 0x2029 \<or> c = 0x202F \<or> c = 0x205F \<or> c = 0x3000 \<or> c = 0xFEFF)"

definition trim :: "jsstring \<Rightarrow> jsstring" where
  "trim s = rev (dropWhile isWhiteSpace (rev (dropWhile isWhiteSpace s)))"

section \<open>Localization\<close>

datatype language = en | ar

text \<open>\<open>TranslationKey\<close>: the property names of \<open>translations.en\<close>.\<close>

datatype translation_key =
    appTitle | appDescription | language | textInputTab | fileUploadTab
  | textInputPlaceholder | fileUploadPrompt | fileUploadSupported | analyzeButton
  | analyzingButton | fileSelected | fileSize | changeFile | resultsTitle
  | initialStateTitle | initialStateDescription | summaryTitle | keywordsTitle
  | errorGeneric | errorNoText | errorNoFile | errorFileRead | errorNoTextExtracted
  | footerText

text \<open>
  The table \<open>translations\<close>, one function per language object (\<open>translations_of\<close>
  selects the object of a language, \<open>translations[language]\<close>). Text outside ASCII
  (the Arabic strings) is written as its UTF-16 code units.
\<close>

fun translations_en :: "translation_key \<Rightarrow> jsstring" where
  "translations_en appTitle =
     ascii ''AI Content Analyzer''"
| "translations_en appDescription =
     ascii ''Instantly summarize articles, papers, or any text to grasp key insights.''"
| "translations_en language =
     [0x0627, 0x0644, 0x0639, 0x0631, 0x0628, 0x064A, 0x0629]"
| "translations_en textInputTab =
     ascii ''Enter Text''"
| "translations_en fileUploadTab =
     ascii ''Upload File''"
| "translations_en textInputPlaceholder =
     ascii ''Paste your article, report, or any text here...''"
| "translations_en fileUploadPrompt =
     ascii ''Click to browse or drag & drop a file''"
| "translations_en fileUploadSupported =
     ascii ''Supports .txt, .md, .pdf, .pptx''"
| "translations_en analyzeButton =
     ascii ''Analyze Content''"
| "translations_en analyzingButton =
     ascii ''Analyzing...''"
| "translations_en fileSelected =
     ascii ''File Selected''"
| "translations_en fileSize =
     ascii ''KB''"
| "translations_en changeFile =
     ascii ''Choose a different file''"
| "translations_en resultsTitle =
     ascii ''Analysis Results''"
| "translations_en initialStateTitle =
     ascii ''Awaiting Analysis''"
| "translations_en initialStateDescription =
     ascii ''Your summary and keywords will appear here once the analysis is complete.''"
| "translations_en summaryTitle =
     ascii ''Summary''"
| "translations_en keywordsTitle =
     ascii ''Keywords''"
| "translations_en errorGeneric =
     ascii ''An error occurred during analysis. Please try again.''"
| "translations_en errorNoText =
     ascii ''Please enter some text to analyze.''"
| "translations_en errorNoFile =
     ascii ''Please select a file to analyze.''"
| "translations_en errorFileRead =
     ascii ''Failed to read or parse the file. Please ensure it'' @
     [0x0027] @
     ascii ''s not corrupted.''"
| "translations_en errorNoTextExtracted =
     ascii ''Could not extract any text from the file. It might be empty or image-based.''"
| "translations_en footerText =
     ascii ''Powered by Google Gemini. Built with React & Tailwind CSS.''"

fun translations_ar :: "translation_key \<Rightarrow> jsstring" where
  "translations_ar appTitle =
     [0x0645, 0x062D, 0x0644, 0x0644, 0x0020, 0x0627, 0x0644, 0x0645, 0x062D, 0x062A,
     0x0648, 0x0649, 0x0020, 0x0628, 0x0627, 0x0644, 0x0630, 0x0643, 0x0627, 0x0621,
     0x0020, 0x0627, 0x0644, 0x0627, 0x0635, 0x0637, 0x0646, 0x0627, 0x0639, 0x064A]"
| "translations_ar appDescription =
     [0x0644, 0x062E, 0x0635, 0x0020, 0x0627, 0x0644, 0x0645, 0x0642, 0x0627, 0x0644,
     0x0627, 0x062A, 0x0020, 0x0648, 0x0627, 0x0644, 0x0623, 0x0628, 0x062D, 0x0627,
     0x062B, 0x0020, 0x0648, 0x0623, 0x064A, 0x0020, 0x0646, 0x0635, 0x0020, 0x0639,
     0x0644, 0x0649, 0x0020, 0x0627, 0x0644, 0x0641, 0x0648, 0x0631, 0x0020, 0x0644,
     0x0641, 0x0647, 0x0645, 0x0020, 0x0627, 0x0644, 0x0623, 0x0641, 0x0643, 0x0627,
     0x0631, 0x0020, 0x0627, 0x0644, 0x0631, 0x0626, 0x064A, 0x0633, 0x064A, 0x0629,
     0x002E]"
| "translations_ar language =
     ascii ''English''"
| "translations_ar textInputTab =
     [0x0625, 0x062F, 0x062E, 0x0627, 0x0644, 0x0020, 0x0627, 0x0644, 0x0646, 0x0635]"
| "translations_ar fileUploadTab =
     [0x0631, 0x0641, 0x0639, 0x0020, 0x0645, 0x0644, 0x0641]"
| "translations_ar textInputPlaceholder =
     [0x0627, 0x0644, 0x0635, 0x0642, 0x0020, 0x0645, 0x0642, 0x0627, 0x0644, 0x0643,
     0x0020, 0x0623, 0x0648, 0x0020, 0x062A, 0x0642, 0x0631, 0x064A, 0x0631, 0x0643,
     0x0020, 0x0623, 0x0648, 0x0020, 0x0623, 0x064A, 0x0020, 0x0646, 0x0635, 0x0020,
     0x0647, 0x0646, 0x0627, 0x002E, 0x002E, 0x002E]"
| "translations_ar fileUploadPrompt =
     [0x0627, 0x0646, 0x0642, 0x0631, 0x0020, 0x0644, 0x0644, 0x062A, 0x0635, 0x0641,
     0x062D, 0x0020, 0x0623, 0x0648, 0x0020, 0x0627, 0x0633, 0x062D, 0x0628, 0x0020,
     0x0648, 0x0623, 0x0641, 0x0644, 0x062A, 0x0020, 0x0645, 0x0644, 0x0641, 0x064B,
     0x0627]"
| "translations_ar fileUploadSupported =
     [0x064A, 0x062F, 0x0639, 0x0645, 0x0020, 0x0645, 0x0644, 0x0641, 0x0627, 0x062A,
     0x0020, 0x002E, 0x0074, 0x0078, 0x0074, 0x002C, 0x0020, 0x002E, 0x006D, 0x0064,
     0x002C, 0x0020, 0x002E, 0x0070, 0x0064, 0x0066, 0x002C, 0x0020, 0x002E, 0x0070,
     0x0070, 0x0074, 0x0078]"
| "translations_ar analyzeButton =
     [0x062A, 0x062D, 0x0644, 0x064A, 0x0644, 0x0020, 0x0627, 0x0644, 0x0645, 0x062D,
     0x062A, 0x0648, 0x0649]"
| "translations_ar analyzingButton =
     [0x062C, 0x0627, 0x0631, 0x064A, 0x0020, 0x0627, 0x0644, 0x062A, 0x062D, 0x0644,
     0x064A, 0x0644, 0x002E, 0x002E, 0x002E]"
| "translations_ar fileSelected =
     [0x0627, 0x0644, 0x0645, 0x0644, 0x0641, 0x0020, 0x0627, 0x0644, 0x0645, 0x062D,
     0x062F, 0x062F]"
| "translations_ar fileSize =
     [0x0643, 0x064A, 0x0644, 0x0648, 0x0628, 0x0627, 0x064A, 0x062A]"
| "translations_ar changeFile =
     [0x0627, 0x062E, 0x062A, 0x064A, 0x0627, 0x0631, 0x0020, 0x0645, 0x0644, 0x0641,
     0x0020, 0x0645, 0x062E, 0x062A, 0x0644, 0x0641]"
| "translations_ar resultsTitle =
     [0x0646, 0x062A, 0x0627, 0x0626, 0x062C, 0x0020, 0x0627, 0x0644, 0x062A, 0x062D,
     0x0644, 0x064A, 0x0644]"
| "translations_ar initialStateTitle =
     [0x0641, 0x064A, 0x0020, 0x0627, 0x0646, 0x062A, 0x0638, 0x0627, 0x0631, 0x0020,
     0x0627, 0x0644, 0x062A, 0x062D, 0x0644, 0x064A, 0x0644]"
| "translations_ar initialStateDescription =
     [0x0633, 0x064A, 0x0638, 0x0647, 0x0631, 0x0020, 0x0645, 0x0644, 0x062E, 0x0635,
     0x0643, 0x0020, 0x0648, 0x0643, 0x0644, 0x0645, 0x0627, 0x062A, 0x0643, 0x0020,
     0x0627, 0x0644, 0x0631, 0x0626, 0x064A, 0x0633, 0x064A, 0x0629, 0x0020, 0x0647,
     0x0646, 0x0627, 0x0020, 0x0628, 0x0645, 0x062C, 0x0631, 0x062F, 0x0020, 0x0627,
     0x0643, 0x062A, 0x0645, 0x0627, 0x0644, 0x0020, 0x0627, 0x0644, 0x062A, 0x062D,
     0x0644, 0x064A, 0x0644, 0x002E]"
| "translations_ar summaryTitle =
     [0x0627, 0x0644, 0x0645, 0x0644, 0x062E, 0x0635]"
| "translations_ar keywordsTitle =
     [0x0627, 0x0644, 0x0643, 0x0644, 0x0645, 0x0627, 0x062A, 0x0020, 0x0627, 0x0644,
     0x0631, 0x0626, 0x064A, 0x0633, 0x064A, 0x0629]"
| "translations_ar errorGeneric =
     [0x062D, 0x062F, 0x062B, 0x0020, 0x062E, 0x0637, 0x0623, 0x0020, 0x0623, 0x062B,
     0x0646, 0x0627, 0x0621, 0x0020, 0x0627, 0x0644, 0x062A, 0x062D, 0x0644, 0x064A,
     0x0644, 0x002E, 0x0020, 0x064A, 0x0631, 0x062C, 0x0649, 0x0020, 0x0627, 0x0644,
     0x0645, 0x062D, 0x0627, 0x0648, 0x0644, 0x0629, 0x0020, 0x0645, 0x0631, 0x0629,
     0x0020, 0x0623, 0x062E, 0x0631, 0x0649, 0x002E]"
| "translations_ar errorNoText =
     [0x0627, 0x0644, 0x0631, 0x062C, 0x0627, 0x0621, 0x0020, 0x0625, 0x062F, 0x062E,
     0x0627, 0x0644, 0x0020, 0x0628, 0x0639, 0x0636, 0x0020, 0x0627, 0x0644, 0x0646,
     0x0635, 0x0020, 0x0644, 0x062A, 0x062D, 0x0644, 0x064A, 0x0644, 0x0647, 0x002E]"
| "translations_ar errorNoFile =
     [0x0627, 0x0644, 0x0631, 0x062C, 0x0627, 0x0621, 0x0020, 0x0627, 0x062E, 0x062A,
     0x064A, 0x0627, 0x0631, 0x0020, 0x0645, 0x0644, 0x0641, 0x0020, 0x0644, 0x062A,
     0x062D, 0x0644, 0x064A, 0x0644, 0x0647, 0x002E]"
| "translations_ar errorFileRead =
     [0x0641, 0x0634, 0x0644, 0x0020, 0x0641, 0x064A, 0x0020, 0x0642, 0x0631, 0x0627,
     0x0621, 0x0629, 0x0020, 0x0627, 0x0644, 0x0645, 0x0644, 0x0641, 0x0020, 0x0623,
     0x0648, 0x0020, 0x062A, 0x062D, 0x0644, 0x064A, 0x0644, 0x0647, 0x002E, 0x0020,
     0x064A, 0x0631, 0x062C, 0x0649, 0x0020, 0x0627, 0x0644, 0x062A, 0x0623, 0x0643,
     0x062F, 0x0020, 0x0645, 0x0646, 0x0020, 0x0623, 0x0646, 0x0647, 0x0020, 0x063A,
     0x064A, 0x0631, 0x0020, 0x062A, 0x0627, 0x0644, 0x0641, 0x002E]"
| "translations_ar errorNoTextExtracted =
     [0x062A, 0x0639, 0x0630, 0x0631, 0x0020, 0x0627, 0x0633, 0x062A, 0x062E, 0x0644,
     0x0627, 0x0635, 0x0020, 0x0623, 0x064A, 0x0020, 0x0646, 0x0635, 0x0020, 0x0645,
     0x0646, 0x0020, 0x0627, 0x0644, 0x0645, 0x0644, 0x0641, 0x002E, 0x0020, 0x0642,
     0x062F, 0x0020, 0x064A, 0x0643, 0x0648, 0x0646, 0x0020, 0x0641, 0x0627, 0x0631,
     0x063A, 0x064B, 0x0627, 0x0020, 0x0623, 0x0648, 0x0020, 0x064A, 0x062D, 0x062A,
     0x0648, 0x064A, 0x0020, 0x0639, 0x0644, 0x0649, 0x0020, 0x0635, 0x0648, 0x0631,
     0x0020, 0x0641, 0x0642, 0x0637, 0x002E]"
| "translations_ar footerText =
     [0x0645, 0x062F, 0x0639, 0x0648, 0x0645, 0x0020, 0x0628, 0x0648, 0x0627, 0x0633,
     0x0637, 0x0629, 0x0020, 0x0047, 0x006F, 0x006F, 0x0067, 0x006C, 0x0065, 0x0020,
     0x0047, 0x0065, 0x006D, 0x0069, 0x006E, 0x0069, 0x002E, 0x0020, 0x062A, 0x0645,
     0x0020, 0x0625, 0x0646, 0x0634, 0x0627, 0x0624, 0x0647, 0x0020, 0x0628, 0x0627,
     0x0633, 0x062A, 0x062E, 0x062F, 0x0627, 0x0645, 0x0020, 0x0052, 0x0065, 0x0061,
     0x0063, 0x0074, 0x0020, 0x0648, 0x0020, 0x0054, 0x0061, 0x0069, 0x006C, 0x0077,
     0x0069, 0x006E, 0x0064, 0x0020, 0x0043, 0x0053, 0x0053, 0x002E]"

fun translations_of :: "language \<Rightarrow> translation_key \<Rightarrow> jsstring" where
  "translations_of en = translations_en"
| "translations_of ar = translations_ar"

text \<open>
  \<open>translations[language][key] || translations['en'][key]\<close>, with the table as a
  parameter: the left operand is returned when it is truthy (a non-empty string), the
  right operand otherwise.
\<close>

definition t_in ::
  "(language \<Rightarrow> translation_key \<Rightarrow> jsstring) \<Rightarrow> language \<Rightarrow> translation_key \<Rightarrow> jsstring" where
  "t_in table lng key = (if table lng key \<noteq> [] then table lng key else table en key)"

text \<open>The function \<open>t\<close> that \<open>App\<close> provides for its current language.\<close>

definition t :: "language \<Rightarrow> translation_key \<Rightarrow> jsstring" where
  "t lng key = t_in translations_of lng key"

subsection \<open>The App component\<close>

text \<open>
  \<open>App\<close> holds the active language (initially \<open>'ar'\<close>) and, in an effect that runs
  after the first render and after every render in which the language changed, writes
  the \<open>lang\<close> and \<open>dir\<close> attributes of \<open>document.documentElement\<close>.
\<close>

record document =
  lang :: jsstring
  dir :: jsstring

record app =
  activeLanguage :: language
  documentElement :: document

text \<open>A \<open>Language\<close> value is the string \<open>'en'\<close> or \<open>'ar'\<close>.\<close>

fun languageString :: "language \<Rightarrow> jsstring" where
  "languageString en = ascii ''en''"
| "languageString ar = ascii ''ar''"

definition languageEffect :: "language \<Rightarrow> document \<Rightarrow> document" where
  "languageEffect lng d =
     d\<lparr>lang := languageString lng,
       dir := (if lng = ar then ascii ''rtl'' else ascii ''ltr'')\<rparr>"

definition mount :: "document \<Rightarrow> app" where
  "mount d = \<lparr>activeLanguage = ar, documentElement = languageEffect ar d\<rparr>"

text \<open>
  \<open>setLanguage\<close> with the current value leaves the component as it is (no render, the
  effect's dependency is unchanged); with another value the component renders with the
  new language and the effect runs.
\<close>

definition setLanguage :: "language \<Rightarrow> app \<Rightarrow> app" where
  "setLanguage lng a =
     (if lng = activeLanguage a then a
      else \<lparr>activeLanguage = lng,
            documentElement = languageEffect lng (documentElement a)\<rparr>)"

section \<open>The analysis request lifecycle\<close>

subsection \<open>Thrown values and promises\<close>

text \<open>
  JavaScript can throw any value. The code observes of a caught value whether it is an
  instance of \<open>Error\<close> (then it reads its \<open>message\<close>) and whether it is an instance of
  \<open>FileProcessingError\<close>. The class \<open>FileProcessingError\<close> is declared outside this
  file, so membership in it is a flag of its own.
\<close>

datatype thrown =
    ErrorInstance bool jsstring
  | NonError bool

fun instanceofError :: "thrown \<Rightarrow> bool" where
  "instanceofError (ErrorInstance _ _) = True"
| "instanceofError (NonError _) = False"

fun instanceofFileProcessingError :: "thrown \<Rightarrow> bool" where
  "instanceofFileProcessingError (ErrorInstance fpe _) = fpe"
| "instanceofFileProcessingError (NonError fpe) = fpe"

text \<open>\<open>new Error(msg)\<close>\<close>

definition newError :: "jsstring \<Rightarrow> thrown" where
  "newError msg = ErrorInstance False msg"

text \<open>
  The outcome of awaiting a call: it resolves with a value, rejects (or throws) with a
  thrown value, or never settles.
\<close>

datatype 'a promise = Resolved 'a | Rejected thrown | Pending

subsection \<open>State and effects of AppContent\<close>

datatype inputMode = ModeText | ModeFile

record ('f, 'r) state =
  inputMode :: inputMode
  inputText :: jsstring
  selectedFile :: "'f option"
  analysisResult :: "'r option"
  isLoading :: bool
  error :: "jsstring option"

text \<open>The initial values of the \<open>useState\<close> hooks.\<close>

definition initialState :: "('f, 'r) state" where
  "initialState =
     \<lparr>inputMode = ModeText, inputText = [], selectedFile = None,
      analysisResult = None, isLoading = False, error = None\<rparr>"

text \<open>
  What a run of the handler does, in order: calls of the state setters, calls of the two
  collaborators, and \<open>console.error\<close> with its label and the logged value.
\<close>

datatype ('f, 'r) effect =
    SetIsLoading bool
  | SetError "jsstring option"
  | SetAnalysisResult "'r option"
  | CallExtractTextFromFile 'f
  | CallAnalyzeContent jsstring
  | ConsoleError jsstring thrown

fun perform :: "('f, 'r) effect \<Rightarrow> ('f, 'r) state \<Rightarrow> ('f, 'r) state" where
  "perform (SetIsLoading b) s = s\<lparr>isLoading := b\<rparr>"
| "perform (SetError e) s = s\<lparr>error := e\<rparr>"
| "perform (SetAnalysisResult r) s = s\<lparr>analysisResult := r\<rparr>"
| "perform (CallExtractTextFromFile f) s = s"
| "perform (CallAnalyzeContent txt) s = s"
| "perform (ConsoleError label v) s = s"

text \<open>The state after each effect of a run, in order, and the state after the run.\<close>

fun states :: "('f, 'r) effect list \<Rightarrow> ('f, 'r) state \<Rightarrow> ('f, 'r) state list" where
  "states [] s = []"
| "states (e # fx) s = perform e s # states fx (perform e s)"

definition stateAfter :: "('f, 'r) effect list \<Rightarrow> ('f, 'r) state \<Rightarrow> ('f, 'r) state" where
  "stateAfter fx s = last (s # states fx s)"

text \<open>The arguments of the collaborators' calls in a run, in order.\<close>

fun analyzeCalls :: "('f, 'r) effect list \<Rightarrow> jsstring list" where
  "analyzeCalls [] = []"
| "analyzeCalls (CallAnalyzeContent txt # fx) = txt # analyzeCalls fx"
| "analyzeCalls (_ # fx) = analyzeCalls fx"

fun extractCalls :: "('f, 'r) effect list \<Rightarrow> 'f list" where
  "extractCalls [] = []"
| "extractCalls (CallExtractTextFromFile f # fx) = f # extractCalls fx"
| "extractCalls (_ # fx) = extractCalls fx"

subsection \<open>getTextToAnalyze\<close>

text \<open>
  The parameters are the lookup function \<open>tr\<close> of the localization context and the
  extractor, given by the outcome of its call on a file. The \<open>throw\<close> of the
  no-text-extracted error is inside the \<open>try\<close> block, so it passes through the
  \<open>catch\<close> clause like a failure of the extractor.
\<close>

definition catchExtract ::
  "(translation_key \<Rightarrow> jsstring) \<Rightarrow> thrown \<Rightarrow> ('f, 'r) effect list \<times> jsstring promise" where
  "catchExtract tr err =
     (if instanceofFileProcessingError err
      then ([ConsoleError (ascii ''File processing error:'') err],
            Rejected (newError (tr errorFileRead)))
      else ([], Rejected err))"

definition getTextToAnalyze ::
  "(translation_key \<Rightarrow> jsstring) \<Rightarrow> ('f \<Rightarrow> jsstring promise) \<Rightarrow> ('f, 'r) state
     \<Rightarrow> ('f, 'r) effect list \<times> jsstring promise" where
  "getTextToAnalyze tr extractTextFromFile s =
     (if inputMode s = ModeText then
        (if trim (inputText s) = [] then ([], Rejected (newError (tr errorNoText)))
         else ([], Resolved (inputText s)))
      else
        (case selectedFile s of
           None \<Rightarrow> ([], Rejected (newError (tr errorNoFile)))
         | Some file \<Rightarrow>
             (case extractTextFromFile file of
                Resolved extractedText \<Rightarrow>
                  (if trim extractedText = [] then
                     (let (fx, r) = catchExtract tr (newError (tr errorNoTextExtracted))
                      in (CallExtractTextFromFile file # fx, r))
                   else ([CallExtractTextFromFile file], Resolved extractedText))
              | Rejected err \<Rightarrow>
                  (let (fx, r) = catchExtract tr err
                   in (CallExtractTextFromFile file # fx, r))
              | Pending \<Rightarrow> ([CallExtractTextFromFile file], Pending))))"

subsection \<open>handleAnalyze\<close>

text \<open>
  The \<open>try\<close> block: it completes normally after publishing the result, or it throws
  what \<open>getTextToAnalyze\<close> or the analysis client threw, or it never settles.
\<close>

definition tryBlock ::
  "(translation_key \<Rightarrow> jsstring) \<Rightarrow> ('f \<Rightarrow> jsstring promise) \<Rightarrow> (jsstring \<Rightarrow> 'r promise)
     \<Rightarrow> ('f, 'r) state \<Rightarrow> ('f, 'r) effect list \<times> unit promise" where
  "tryBlock tr extractTextFromFile analyzeContent s =
     (case getTextToAnalyze tr extractTextFromFile s of
        (fx, Resolved textToAnalyze) \<Rightarrow>
          (case analyzeContent textToAnalyze of
             Resolved result \<Rightarrow>
               (fx @ [CallAnalyzeContent textToAnalyze, SetAnalysisResult (Some result)],
                Resolved ())
           | Rejected err \<Rightarrow> (fx @ [CallAnalyzeContent textToAnalyze], Rejected err)
           | Pending \<Rightarrow> (fx @ [CallAnalyzeContent textToAnalyze], Pending))
      | (fx, Rejected err) \<Rightarrow> (fx, Rejected err)
      | (fx, Pending) \<Rightarrow> (fx, Pending))"

text \<open>The \<open>catch\<close> clause.\<close>

definition catchBlock :: "(translation_key \<Rightarrow> jsstring) \<Rightarrow> thrown \<Rightarrow> ('f, 'r) effect list" where
  "catchBlock tr err =
     [ConsoleError (ascii ''Analysis failed:'') err,
      SetError (Some (case err of
                        ErrorInstance _ message \<Rightarrow> message
                      | NonError _ \<Rightarrow> tr errorGeneric))]"

text \<open>
  The handler returns its effects and its own outcome: it settles when the \<open>try\<close>
  block does, after the \<open>finally\<close> clause, and it stays pending when an awaited call
  never settles.
\<close>

definition handleAnalyze ::
  "(translation_key \<Rightarrow> jsstring) \<Rightarrow> ('f \<Rightarrow> jsstring promise) \<Rightarrow> (jsstring \<Rightarrow> 'r promise)
     \<Rightarrow> ('f, 'r) state \<Rightarrow> ('f, 'r) effect list \<times> unit promise" where
  "handleAnalyze tr extractTextFromFile analyzeContent s =
     (let start = [SetIsLoading True, SetError None, SetAnalysisResult None]
      in case tryBlock tr extractTextFromFile analyzeContent s of
           (fx, Resolved _) \<Rightarrow> (start @ fx @ [SetIsLoading False], Resolved ())
         | (fx, Rejected err) \<Rightarrow>
             (start @ fx @ catchBlock tr err @ [SetIsLoading False], Resolved ())
         | (fx, Pending) \<Rightarrow> (start @ fx, Pending))"

section \<open>Properties\<close>

subsection \<open>Auxiliary facts\<close>

lemma trim_Nil_iff: "trim s = [] \<longleftrightarrow> (\<forall>c\<in>set s. isWhiteSpace c)"
proof
  assume "trim s = []"
  then have rest: "\<forall>c\<in>set (dropWhile isWhiteSpace s). isWhiteSpace c"
    by (simp add: trim_def)
  have "dropWhile isWhiteSpace s = []"
  proof (rule ccontr)
    assume ne: "dropWhile isWhiteSpace s \<noteq> []"
    then have "\<not> isWhiteSpace (hd (dropWhile isWhiteSpace s))"
      by (rule hd_dropWhile)
    moreover from ne have "hd (dropWhile isWhiteSpace s) \<in> set (dropWhile isWhiteSpace s)"
      by (rule hd_in_set)
    ultimately show False using rest by blast
  qed
  then show "\<forall>c\<in>set s. isWhiteSpace c"
    by simp
next
  assume "\<forall>c\<in>set s. isWhiteSpace c"
  then show "trim s = []"
    by (auto simp: trim_def dest: set_dropWhileD)
qed

lemma stateAfter_Nil: "stateAfter [] s = s"
  by (simp add: stateAfter_def)

lemma stateAfter_Cons: "stateAfter (e # fx) s = stateAfter fx (perform e s)"
  by (simp add: stateAfter_def)

lemma stateAfter_append: "stateAfter (fx @ gx) s = stateAfter gx (stateAfter fx s)"
  by (induction fx arbitrary: s) (simp_all add: stateAfter_Nil stateAfter_Cons)

lemma states_append: "states (fx @ gx) s = states fx s @ states gx (stateAfter fx s)"
  by (induction fx arbitrary: s) (simp_all add: stateAfter_Nil stateAfter_Cons)

lemmas lifecycle_defs = handleAnalyze_def tryBlock_def getTextToAnalyze_def catchExtract_def
  catchBlock_def newError_def

text \<open>Every entry of the table is a non-empty string, so \<open>t\<close> never falls back.\<close>

lemma translations_of_truthy: "translations_of lng key \<noteq> []"
  by (cases lng; cases key) (simp_all add: ascii_def)

lemma t_translations_of: "t lng key = translations_of lng key"
  by (simp add: t_def t_in_def translations_of_truthy)

text \<open>
  The handler catches everything: its own promise never rejects. It stays pending exactly
  when the \<open>try\<close> block does, and then the loading flag is still set.
\<close>

lemma handleAnalyze_never_rejects:
  "snd (handleAnalyze tr extract analyze s) \<noteq> Rejected err"
  by (simp add: handleAnalyze_def split: prod.splits promise.splits)

lemma handleAnalyze_pending_iff:
  "snd (handleAnalyze tr extract analyze s) = Pending
     \<longleftrightarrow> snd (tryBlock tr extract analyze s) = Pending"
  by (simp add: handleAnalyze_def split: prod.splits promise.splits)

lemma handleAnalyze_pending_loading:
  assumes "snd (handleAnalyze tr extract analyze s) = Pending"
  shows "isLoading (stateAfter (fst (handleAnalyze tr extract analyze s)) s)"
  using assms
  by (auto simp: lifecycle_defs stateAfter_def split: option.splits promise.splits if_splits)

text \<open>
  The outcome of \<open>getTextToAnalyze\<close> in terms of its inputs, and when the handler
  settles: exactly when no call it awaits stays pending.
\<close>

lemma getTextToAnalyze_outcome:
  "snd (getTextToAnalyze tr extract s) =
     (if inputMode s = ModeText then
        (if \<forall>c\<in>set (inputText s). isWhiteSpace c
         then Rejected (newError (tr errorNoText)) else Resolved (inputText s))
      else
        (case selectedFile s of
           None \<Rightarrow> Rejected (newError (tr errorNoFile))
         | Some file \<Rightarrow>
             (case extract file of
                Resolved extractedText \<Rightarrow>
                  (if \<forall>c\<in>set extractedText. isWhiteSpace c
                   then Rejected (newError (tr errorNoTextExtracted))
                   else Resolved extractedText)
              | Rejected err \<Rightarrow>
                  (if instanceofFileProcessingError err
                   then Rejected (newError (tr errorFileRead)) else Rejected err)
              | Pending \<Rightarrow> Pending)))"
  by (simp add: getTextToAnalyze_def catchExtract_def newError_def trim_Nil_iff
      split: option.splits promise.splits)

lemma handleAnalyze_settles_iff:
  "snd (handleAnalyze tr extract analyze s) = Resolved ()
     \<longleftrightarrow> snd (getTextToAnalyze tr extract s) \<noteq> Pending
        \<and> (\<forall>txt. snd (getTextToAnalyze tr extract s) = Resolved txt \<longrightarrow> analyze txt \<noteq> Pending)"
  by (auto simp: handleAnalyze_def tryBlock_def split: prod.splits promise.splits)

text \<open>
  A call of \<open>setLanguage\<close> with the current language changes nothing. After mounting
  and any sequence of \<open>setLanguage\<close> calls, the document attributes are those of the
  active language.
\<close>

lemma setLanguage_same: "setLanguage (activeLanguage a) a = a"
  by (simp add: setLanguage_def)

lemma document_follows_language:
  "lang (documentElement (foldl (\<lambda>a l. setLanguage l a) (mount d) ls))
     = languageString (activeLanguage (foldl (\<lambda>a l. setLanguage l a) (mount d) ls))
   \<and> dir (documentElement (foldl (\<lambda>a l. setLanguage l a) (mount d) ls))
     = (if activeLanguage (foldl (\<lambda>a l. setLanguage l a) (mount d) ls) = ar
        then ascii ''rtl'' else ascii ''ltr'')"
proof (induction ls rule: rev_induct)
  case Nil
  show ?case by (simp add: mount_def languageEffect_def)
next
  case (snoc l ls)
  then show ?case by (simp add: setLanguage_def languageEffect_def)
qed

subsection \<open>Result and error state\<close>

text \<open>
  Claim C1. Success: when \<open>getTextToAnalyze\<close> returns a text and the analysis client
  resolves with a result for it (in text mode, for a non-blank input text; in file mode,
  for a non-blank text that the extractor returned for the selected file), the handler
  settles, the result state is that result and the error state is null. Failure: when
  \<open>getTextToAnalyze\<close> throws, or the analysis client rejects, the handler settles,
  the error state is non-null and the result state is null. After every invocation that
  has settled the two are never both non-null, and this also holds of every state during
  the run when it holds of the state the run starts in.
\<close>

theorem result_error_exclusive:
  "(snd (getTextToAnalyze (t lng) extract s) = Resolved txt \<and> analyze txt = Resolved r \<longrightarrow>
      snd (handleAnalyze (t lng) extract analyze s) = Resolved ()
      \<and> analysisResult (stateAfter (fst (handleAnalyze (t lng) extract analyze s)) s) = Some r
      \<and> error (stateAfter (fst (handleAnalyze (t lng) extract analyze s)) s) = None)
   \<and> (snd (getTextToAnalyze (t lng) extract s) = Rejected err
        \<or> (snd (getTextToAnalyze (t lng) extract s) = Resolved txt \<and> analyze txt = Rejected err) \<longrightarrow>
      snd (handleAnalyze (t lng) extract analyze s) = Resolved ()
      \<and> error (stateAfter (fst (handleAnalyze (t lng) extract analyze s)) s) \<noteq> None
      \<and> analysisResult (stateAfter (fst (handleAnalyze (t lng) extract analyze s)) s) = None)
   \<and> (inputMode s = ModeText \<and> (\<exists>c\<in>set (inputText s). \<not> isWhiteSpace c)
        \<and> analyze (inputText s) = Resolved r \<longrightarrow>
      snd (handleAnalyze (t lng) extract analyze s) = Resolved ()
      \<and> analysisResult (stateAfter (fst (handleAnalyze (t lng) extract analyze s)) s) = Some r
      \<and> error (stateAfter (fst (handleAnalyze (t lng) extract analyze s)) s) = None)
   \<and> (inputMode s = ModeFile \<and> selectedFile s = Some file \<and> extract file = Resolved txt
        \<and> (\<exists>c\<in>set txt. \<not> isWhiteSpace c) \<and> analyze txt = Resolved r \<longrightarrow>
      snd (handleAnalyze (t lng) extract analyze s) = Resolved ()
      \<and> analysisResult (stateAfter (fst (handleAnalyze (t lng) extract analyze s)) s) = Some r
      \<and> error (stateAfter (fst (handleAnalyze (t lng) extract analyze s)) s) = None)
   \<and> (snd (handleAnalyze (t lng) extract analyze s) = Resolved () \<longrightarrow>
      \<not> (analysisResult (stateAfter (fst (handleAnalyze (t lng) extract analyze s)) s) \<noteq> None
         \<and> error (stateAfter (fst (handleAnalyze (t lng) extract analyze s)) s) \<noteq> None)
      \<and> (analysisResult s = None \<or> error s = None \<longrightarrow>
           (\<forall>x\<in>set (states (fst (handleAnalyze (t lng) extract analyze s)) s).
              analysisResult x = None \<or> error x = None)))"
proof (intro conjI impI)
  assume "inputMode s = ModeText \<and> (\<exists>c\<in>set (inputText s). \<not> isWhiteSpace c)
        \<and> analyze (inputText s) = Resolved r"
  then have "inputMode s = ModeText" "trim (inputText s) \<noteq> []" "analyze (inputText s) = Resolved r"
    by (simp_all add: trim_Nil_iff)
  then show "snd (handleAnalyze (t lng) extract analyze s) = Resolved ()"
    "analysisResult (stateAfter (fst (handleAnalyze (t lng) extract analyze s)) s) = Some r"
    "error (stateAfter (fst (handleAnalyze (t lng) extract analyze s)) s) = None"
    by (simp_all add: lifecycle_defs stateAfter_def)
next
  assume "inputMode s = ModeFile \<and> selectedFile s = Some file \<and> extract file = Resolved txt
        \<and> (\<exists>c\<in>set txt. \<not> isWhiteSpace c) \<and> analyze txt = Resolved r"
  then have "inputMode s = ModeFile" "selectedFile s = Some file" "extract file = Resolved txt"
    "trim txt \<noteq> []" "analyze txt = Resolved r"
    by (simp_all add: trim_Nil_iff)
  then show "snd (handleAnalyze (t lng) extract analyze s) = Resolved ()"
    "analysisResult (stateAfter (fst (handleAnalyze (t lng) extract analyze s)) s) = Some r"
    "error (stateAfter (fst (handleAnalyze (t lng) extract analyze s)) s) = None"
    by (simp_all add: lifecycle_defs stateAfter_def)
qed (auto simp: lifecycle_defs stateAfter_def split: option.splits promise.splits if_splits)

theorem result_error_exclusive_witness:
  "analysisResult (stateAfter (fst (handleAnalyze (t en) (\<lambda>f::nat. Resolved (ascii ''report''))
          (\<lambda>x. Resolved (7::nat))
          (initialState\<lparr>inputMode := ModeFile, selectedFile := Some 1\<rparr>)))
          (initialState\<lparr>inputMode := ModeFile, selectedFile := Some 1\<rparr>)) = Some 7
   \<and> error (stateAfter (fst (handleAnalyze (t en) (\<lambda>f::nat. Resolved (ascii ''report''))
          (\<lambda>x. Resolved (7::nat))
          (initialState\<lparr>inputMode := ModeFile, selectedFile := Some 1\<rparr>)))
          (initialState\<lparr>inputMode := ModeFile, selectedFile := Some 1\<rparr>)) = None
   \<and> snd (handleAnalyze (t en) (\<lambda>f::nat. Pending) (\<lambda>x. Resolved (7::nat))
          (initialState\<lparr>inputText := ascii ''hi''\<rparr>)) = Resolved ()
   \<and> map (\<lambda>x. (analysisResult x, error x))
        (states (fst (handleAnalyze (t en) (\<lambda>f::nat. Pending) (\<lambda>x. Resolved (7::nat))
                   (initialState\<lparr>inputText := ascii ''hi''\<rparr>)))
           (initialState\<lparr>inputText := ascii ''hi''\<rparr>))
       = [(None, None), (None, None), (None, None), (None, None), (Some 7, None),
          (Some 7, None)]
   \<and> snd (handleAnalyze (t en) (\<lambda>f::nat. Pending)
          (\<lambda>x. Rejected (NonError False) :: nat promise)
          (initialState\<lparr>inputText := ascii ''hi''\<rparr>)) = Resolved ()
   \<and> map (\<lambda>x. (analysisResult x, error x))
        (states (fst (handleAnalyze (t en) (\<lambda>f::nat. Pending)
                   (\<lambda>x. Rejected (NonError False) :: nat promise)
                   (initialState\<lparr>inputText := ascii ''hi''\<rparr>)))
           (initialState\<lparr>inputText := ascii ''hi''\<rparr>))
       = [(None, None), (None, None), (None, None), (None, None), (None, None),
          (None, Some (t en errorGeneric)), (None, Some (t en errorGeneric))]"
  using result_error_exclusive [of en "\<lambda>f::nat. Resolved (ascii ''report'')"
      "initialState\<lparr>inputMode := ModeFile, selectedFile := Some 1\<rparr>" "ascii ''report''"
      "\<lambda>x. Resolved (7::nat)" 7 _ 1]
    result_error_exclusive [of en "\<lambda>f::nat. Pending"
      "initialState\<lparr>inputText := ascii ''hi''\<rparr>" "ascii ''hi''"
      "\<lambda>x. Resolved (7::nat)" 7]
    result_error_exclusive [of en "\<lambda>f::nat. Pending"
      "initialState\<lparr>inputText := ascii ''hi''\<rparr>" "ascii ''hi''"
      "\<lambda>x. Rejected (NonError False) :: nat promise" _ "NonError False"]
  by (simp add: lifecycle_defs stateAfter_def initialState_def trim_def ascii_def
      isWhiteSpace_def)

subsection \<open>The loading flag\<close>

text \<open>
  Claim C2. When the extractor and the analysis client settle on every call, whether
  they resolve or throw, the handler settles. For every invocation that has settled,
  whatever was thrown on the way, the loading flag is false in the state it leaves and
  true in every state before that one, from the first effect of the run on.
\<close>

theorem loading_released:
  "((\<forall>file. extract file \<noteq> Pending) \<and> (\<forall>txt. analyze txt \<noteq> Pending) \<longrightarrow>
      snd (handleAnalyze (t lng) extract analyze s) = Resolved ())
   \<and> (snd (handleAnalyze (t lng) extract analyze s) = Resolved () \<longrightarrow>
      \<not> isLoading (stateAfter (fst (handleAnalyze (t lng) extract analyze s)) s)
      \<and> states (fst (handleAnalyze (t lng) extract analyze s)) s \<noteq> []
      \<and> (\<forall>x\<in>set (butlast (states (fst (handleAnalyze (t lng) extract analyze s)) s)).
            isLoading x))"
proof (intro conjI impI)
  assume settle: "(\<forall>file. extract file \<noteq> Pending) \<and> (\<forall>txt. analyze txt \<noteq> Pending)"
  then have "snd (getTextToAnalyze (t lng) extract s) \<noteq> Pending"
    by (simp add: getTextToAnalyze_outcome split: option.splits promise.splits)
  with settle show "snd (handleAnalyze (t lng) extract analyze s) = Resolved ()"
    by (simp add: handleAnalyze_settles_iff)
qed (auto simp: lifecycle_defs stateAfter_def split: option.splits promise.splits if_splits)

theorem loading_released_witness:
  "snd (handleAnalyze (t ar) (\<lambda>f::nat. Resolved (ascii ''report''))
          (\<lambda>x. Rejected (NonError False) :: nat promise)
          (initialState\<lparr>inputMode := ModeFile, selectedFile := Some 1\<rparr>)) = Resolved ()
   \<and> map isLoading (states (fst (handleAnalyze (t ar) (\<lambda>f::nat. Resolved (ascii ''report''))
          (\<lambda>x. Rejected (NonError False) :: nat promise)
          (initialState\<lparr>inputMode := ModeFile, selectedFile := Some 1\<rparr>)))
          (initialState\<lparr>inputMode := ModeFile, selectedFile := Some 1\<rparr>))
       = [True, True, True, True, True, True, True, False]"
  using loading_released [of "\<lambda>f::nat. Resolved (ascii ''report'')"
      "\<lambda>x. Rejected (NonError False) :: nat promise" ar
      "initialState\<lparr>inputMode := ModeFile, selectedFile := Some 1\<rparr>"]
  by (simp add: lifecycle_defs stateAfter_def initialState_def trim_def ascii_def
      isWhiteSpace_def)

subsection \<open>Errors reaching the handler\<close>

text \<open>
  Claim C3, as the code has it. For every value that reaches the \<open>catch\<close> clause of
  \<open>handleAnalyze\<close> (thrown by \<open>getTextToAnalyze\<close> or by the analysis client), the
  handler settles and the published error state is that value's message text when the
  value is an \<open>Error\<close> instance, also when that text is empty, and the localized
  generic message when the value is not an \<open>Error\<close> instance. A file-processing error
  of the extractor reaches the handler as the \<open>Error\<close> that replaced it, so it is
  covered as well.
\<close>

theorem top_level_error_published:
  "(snd (getTextToAnalyze (t lng) extract s) = Rejected err
      \<or> (snd (getTextToAnalyze (t lng) extract s) = Resolved txt \<and> analyze txt = Rejected err)
      \<or> snd (tryBlock (t lng) extract analyze s) = Rejected err \<longrightarrow>
    snd (handleAnalyze (t lng) extract analyze s) = Resolved ()
    \<and> error (stateAfter (fst (handleAnalyze (t lng) extract analyze s)) s)
        = Some (case err of ErrorInstance fpe message \<Rightarrow> message
                          | NonError fpe \<Rightarrow> t lng errorGeneric))"
  by (auto simp: lifecycle_defs stateAfter_def split: option.splits promise.splits if_splits)

theorem top_level_error_published_witness:
  "error (stateAfter (fst (handleAnalyze (t en) (\<lambda>f::nat. Pending)
          (\<lambda>x. Rejected (ErrorInstance False (ascii ''quota exceeded'')) :: nat promise)
          (initialState\<lparr>inputText := ascii ''hi''\<rparr>)))
          (initialState\<lparr>inputText := ascii ''hi''\<rparr>)) = Some (ascii ''quota exceeded'')
   \<and> error (stateAfter (fst (handleAnalyze (t en) (\<lambda>f::nat. Pending)
          (\<lambda>x. Rejected (NonError False) :: nat promise)
          (initialState\<lparr>inputText := ascii ''hi''\<rparr>)))
          (initialState\<lparr>inputText := ascii ''hi''\<rparr>)) = Some (t en errorGeneric)"
  using top_level_error_published [of en "\<lambda>f::nat. Pending"
      "initialState\<lparr>inputText := ascii ''hi''\<rparr>"
      "ErrorInstance False (ascii ''quota exceeded'')" "ascii ''hi''"
      "\<lambda>x. Rejected (ErrorInstance False (ascii ''quota exceeded'')) :: nat promise"]
    top_level_error_published [of en "\<lambda>f::nat. Pending"
      "initialState\<lparr>inputText := ascii ''hi''\<rparr>" "NonError False" "ascii ''hi''"
      "\<lambda>x. Rejected (NonError False) :: nat promise"]
  by (simp add: getTextToAnalyze_def initialState_def trim_def ascii_def isWhiteSpace_def)

text \<open>
  The claim as the specification words it fails: an error that carries no message text
  does not always publish the generic message. When the analysis client rejects with an
  \<open>Error\<close> whose message is the empty string (\<open>new Error()\<close>), the published error
  state is the empty string.
\<close>

theorem fallback_on_empty_message_counterexample:
  "snd (tryBlock (t en) (\<lambda>f::nat. Pending)
          (\<lambda>x. Rejected (ErrorInstance False []) :: nat promise)
          (initialState\<lparr>inputText := ascii ''hi''\<rparr>)) = Rejected (ErrorInstance False [])
   \<and> error (stateAfter (fst (handleAnalyze (t en) (\<lambda>f::nat. Pending)
          (\<lambda>x. Rejected (ErrorInstance False []) :: nat promise)
          (initialState\<lparr>inputText := ascii ''hi''\<rparr>)))
          (initialState\<lparr>inputText := ascii ''hi''\<rparr>)) = Some []
   \<and> error (stateAfter (fst (handleAnalyze (t en) (\<lambda>f::nat. Pending)
          (\<lambda>x. Rejected (ErrorInstance False []) :: nat promise)
          (initialState\<lparr>inputText := ascii ''hi''\<rparr>)))
          (initialState\<lparr>inputText := ascii ''hi''\<rparr>)) \<noteq> Some (t en errorGeneric)"
  by (simp add: lifecycle_defs stateAfter_def initialState_def trim_def ascii_def
      isWhiteSpace_def t_translations_of)

lemma empty_message_published:
  assumes "snd (tryBlock (t lng) extract analyze s) = Rejected (ErrorInstance fpe [])"
  shows "error (stateAfter (fst (handleAnalyze (t lng) extract analyze s)) s) = Some []"
  using assms
  by (auto simp: lifecycle_defs stateAfter_def split: option.splits promise.splits if_splits)

subsection \<open>Input validation\<close>

text \<open>
  Claim C4. In text mode, when every code unit of the input text is white space (the
  empty text included), \<open>handleAnalyze\<close> settles with the error state equal to the
  localized \<open>errorNoText\<close> message and no result, and the analysis client is not
  called.
\<close>

theorem blank_text_rejected:
  assumes "inputMode s = ModeText" and "\<forall>c\<in>set (inputText s). isWhiteSpace c"
  shows "snd (handleAnalyze (t lng) extract analyze s) = Resolved ()
    \<and> error (stateAfter (fst (handleAnalyze (t lng) extract analyze s)) s)
        = Some (t lng errorNoText)
    \<and> analysisResult (stateAfter (fst (handleAnalyze (t lng) extract analyze s)) s) = None
    \<and> analyzeCalls (fst (handleAnalyze (t lng) extract analyze s)) = []"
proof -
  from assms(2) have "trim (inputText s) = []"
    by (simp add: trim_Nil_iff)
  with assms(1) show ?thesis
    by (simp add: lifecycle_defs stateAfter_def)
qed

theorem blank_text_rejected_witness:
  "inputMode (initialState\<lparr>inputText := [0x0020, 0x0009, 0x00A0, 0x000A]\<rparr>
       :: (nat, nat) state) = ModeText
   \<and> list_all isWhiteSpace [0x0020, 0x0009, 0x00A0, 0x000A]
   \<and> error (stateAfter (fst (handleAnalyze (t ar) (\<lambda>f::nat. Pending)
          (\<lambda>x. Resolved (7::nat))
          (initialState\<lparr>inputText := [0x0020, 0x0009, 0x00A0, 0x000A]\<rparr>)))
          (initialState\<lparr>inputText := [0x0020, 0x0009, 0x00A0, 0x000A]\<rparr>))
       = Some (t ar errorNoText)
   \<and> analyzeCalls (fst (handleAnalyze (t ar) (\<lambda>f::nat. Pending)
          (\<lambda>x. Resolved (7::nat))
          (initialState\<lparr>inputText := [0x0020, 0x0009, 0x00A0, 0x000A]\<rparr>))) = []"
  using blank_text_rejected [of "initialState\<lparr>inputText := [0x0020, 0x0009, 0x00A0, 0x000A]\<rparr>"
      ar "\<lambda>f::nat. Pending" "\<lambda>x. Resolved (7::nat)"]
  by (simp add: initialState_def isWhiteSpace_def)

text \<open>
  Claim C5. In file mode with no file selected, \<open>handleAnalyze\<close> settles with the
  error state equal to the localized \<open>errorNoFile\<close> message and no result, and
  neither the extractor nor the analysis client is called.
\<close>

theorem no_file_rejected:
  assumes "inputMode s = ModeFile" and "selectedFile s = None"
  shows "snd (handleAnalyze (t lng) extract analyze s) = Resolved ()
    \<and> error (stateAfter (fst (handleAnalyze (t lng) extract analyze s)) s)
        = Some (t lng errorNoFile)
    \<and> analysisResult (stateAfter (fst (handleAnalyze (t lng) extract analyze s)) s) = None
    \<and> extractCalls (fst (handleAnalyze (t lng) extract analyze s)) = []
    \<and> analyzeCalls (fst (handleAnalyze (t lng) extract analyze s)) = []"
  using assms by (simp add: lifecycle_defs stateAfter_def)

theorem no_file_rejected_witness:
  "error (stateAfter (fst (handleAnalyze (t en) (\<lambda>f::nat. Resolved (ascii ''report''))
          (\<lambda>x. Resolved (7::nat))
          (initialState\<lparr>inputMode := ModeFile, inputText := ascii ''typed''\<rparr>)))
          (initialState\<lparr>inputMode := ModeFile, inputText := ascii ''typed''\<rparr>))
       = Some (t en errorNoFile)
   \<and> extractCalls (fst (handleAnalyze (t en) (\<lambda>f::nat. Resolved (ascii ''report''))
          (\<lambda>x. Resolved (7::nat))
          (initialState\<lparr>inputMode := ModeFile, inputText := ascii ''typed''\<rparr>))) = []"
  using no_file_rejected [of "initialState\<lparr>inputMode := ModeFile, inputText := ascii ''typed''\<rparr>"
      en "\<lambda>f::nat. Resolved (ascii ''report'')" "\<lambda>x. Resolved (7::nat)"]
  by (simp add: initialState_def)

text \<open>
  Claim C6. In file mode with a file selected, when the extractor fails with a value
  \<open>err\<close>: if \<open>err\<close> is a \<open>FileProcessingError\<close>, then \<open>getTextToAnalyze\<close> throws a
  new \<open>Error\<close> with the localized \<open>errorFileRead\<close> message and that message is the
  published error state, whatever the message of \<open>err\<close> was; otherwise
  \<open>getTextToAnalyze\<close> throws \<open>err\<close> itself.
\<close>

theorem file_processing_error_remapped:
  assumes "inputMode s = ModeFile" and "selectedFile s = Some file"
    and "extract file = Rejected err"
  shows "(instanceofFileProcessingError err \<longrightarrow>
            snd (getTextToAnalyze (t lng) extract s) = Rejected (newError (t lng errorFileRead))
          \<and> error (stateAfter (fst (handleAnalyze (t lng) extract analyze s)) s)
              = Some (t lng errorFileRead))
    \<and> (\<not> instanceofFileProcessingError err \<longrightarrow>
            snd (getTextToAnalyze (t lng) extract s) = Rejected err)"
  using assms by (simp add: lifecycle_defs stateAfter_def)

theorem file_processing_error_remapped_witness:
  "error (stateAfter (fst (handleAnalyze (t en)
          (\<lambda>f::nat. Rejected (ErrorInstance True (ascii ''bad xref table'')))
          (\<lambda>x. Resolved (7::nat))
          (initialState\<lparr>inputMode := ModeFile, selectedFile := Some 1\<rparr>)))
          (initialState\<lparr>inputMode := ModeFile, selectedFile := Some 1\<rparr>))
       = Some (t en errorFileRead)
   \<and> snd (getTextToAnalyze (t en)
          (\<lambda>f::nat. Rejected (ErrorInstance False (ascii ''out of memory'')))
          (initialState\<lparr>inputMode := ModeFile, selectedFile := Some 1\<rparr> :: (nat, nat) state))
       = Rejected (ErrorInstance False (ascii ''out of memory''))"
  using file_processing_error_remapped [of
      "initialState\<lparr>inputMode := ModeFile, selectedFile := Some 1\<rparr>" 1
      "\<lambda>f::nat. Rejected (ErrorInstance True (ascii ''bad xref table''))"
      "ErrorInstance True (ascii ''bad xref table'')" en "\<lambda>x. Resolved (7::nat)"]
    file_processing_error_remapped [of
      "initialState\<lparr>inputMode := ModeFile, selectedFile := Some 1\<rparr> :: (nat, nat) state" 1
      "\<lambda>f::nat. Rejected (ErrorInstance False (ascii ''out of memory''))"
      "ErrorInstance False (ascii ''out of memory'')" en "\<lambda>x. Resolved (7::nat)"]
  by (simp add: initialState_def)

text \<open>
  Claim C7. In file mode with a file selected, when the extractor returns a text whose
  code units are all white space (the empty text included), \<open>handleAnalyze\<close> settles
  with the error state equal to the localized \<open>errorNoTextExtracted\<close> message and no
  result, and the analysis client is not called.
\<close>

theorem blank_extraction_rejected:
  assumes "inputMode s = ModeFile" and "selectedFile s = Some file"
    and "extract file = Resolved extractedText"
    and "\<forall>c\<in>set extractedText. isWhiteSpace c"
  shows "snd (handleAnalyze (t lng) extract analyze s) = Resolved ()
    \<and> error (stateAfter (fst (handleAnalyze (t lng) extract analyze s)) s)
        = Some (t lng errorNoTextExtracted)
    \<and> analysisResult (stateAfter (fst (handleAnalyze (t lng) extract analyze s)) s) = None
    \<and> analyzeCalls (fst (handleAnalyze (t lng) extract analyze s)) = []"
proof -
  from assms(4) have "trim extractedText = []"
    by (simp add: trim_Nil_iff)
  with assms(1-3) show ?thesis
    by (simp add: lifecycle_defs stateAfter_def)
qed

theorem blank_extraction_rejected_witness:
  "list_all isWhiteSpace [0x000D, 0x000A, 0x3000]
   \<and> error (stateAfter (fst (handleAnalyze (t ar) (\<lambda>f::nat. Resolved [0x000D, 0x000A, 0x3000])
          (\<lambda>x. Resolved (7::nat))
          (initialState\<lparr>inputMode := ModeFile, selectedFile := Some 1\<rparr>)))
          (initialState\<lparr>inputMode := ModeFile, selectedFile := Some 1\<rparr>))
       = Some (t ar errorNoTextExtracted)
   \<and> analyzeCalls (fst (handleAnalyze (t ar) (\<lambda>f::nat. Resolved [0x000D, 0x000A, 0x3000])
          (\<lambda>x. Resolved (7::nat))
          (initialState\<lparr>inputMode := ModeFile, selectedFile := Some 1\<rparr>))) = []"
  using blank_extraction_rejected [of
      "initialState\<lparr>inputMode := ModeFile, selectedFile := Some 1\<rparr>" 1
      "\<lambda>f::nat. Resolved [0x000D, 0x000A, 0x3000]" "[0x000D, 0x000A, 0x3000]"
      ar "\<lambda>x. Resolved (7::nat)"]
  by (simp add: initialState_def isWhiteSpace_def)

text \<open>
  Claim C10. In text mode, when the input text has a code unit that is not white space,
  \<open>getTextToAnalyze\<close> returns the input text itself and the analysis client is called
  once, with exactly that text: leading and trailing white space is kept.
\<close>

theorem text_payload_untrimmed:
  assumes "inputMode s = ModeText" and "\<exists>c\<in>set (inputText s). \<not> isWhiteSpace c"
  shows "snd (getTextToAnalyze (t lng) extract s) = Resolved (inputText s)
    \<and> analyzeCalls (fst (handleAnalyze (t lng) extract analyze s)) = [inputText s]"
proof -
  from assms(2) have "trim (inputText s) \<noteq> []"
    by (simp add: trim_Nil_iff)
  with assms(1) show ?thesis
    by (simp add: lifecycle_defs split: promise.splits)
qed

theorem text_payload_untrimmed_witness:
  "trim (ascii ''  hi '') = ascii ''hi''
   \<and> analyzeCalls (fst (handleAnalyze (t en) (\<lambda>f::nat. Pending) (\<lambda>x. Resolved (7::nat))
          (initialState\<lparr>inputText := ascii ''  hi ''\<rparr>))) = [ascii ''  hi '']"
  using text_payload_untrimmed [of "initialState\<lparr>inputText := ascii ''  hi ''\<rparr>"
      en "\<lambda>f::nat. Pending" "\<lambda>x. Resolved (7::nat)"]
  by (simp add: initialState_def trim_def ascii_def isWhiteSpace_def)

subsection \<open>Localization\<close>

text \<open>
  Claim C8. For every table, language and key, the lookup returns the active language's
  string when that string is truthy (non-empty) and the English string for the key
  otherwise. With the table of the source, where every language has a non-empty string
  for every key, \<open>t\<close> returns the active language's string.
\<close>

theorem t_fallback:
  "(table lng key \<noteq> [] \<longrightarrow> t_in table lng key = table lng key)
   \<and> (table lng key = [] \<longrightarrow> t_in table lng key = table en key)
   \<and> t lng key = translations_of lng key"
  by (simp add: t_in_def t_translations_of)

theorem t_fallback_witness:
  "t_in translations_of ar errorNoFile = translations_ar errorNoFile
   \<and> t_in (translations_of(ar := translations_ar(footerText := []))) ar footerText
       = translations_en footerText"
  using t_fallback [of translations_of ar errorNoFile]
    t_fallback [of "translations_of(ar := translations_ar(footerText := []))" ar footerText]
  by simp

text \<open>
  Claim C9. When \<open>setLanguage\<close> is called with a language other than the active one,
  the \<open>lang\<close> attribute of the document element becomes the new language's string,
  its \<open>dir\<close> attribute becomes \<open>rtl\<close> for Arabic and \<open>ltr\<close> otherwise, and \<open>t\<close>
  looks keys up in the new language's table.
\<close>

theorem setLanguage_document:
  assumes "lng \<noteq> activeLanguage a"
  shows "activeLanguage (setLanguage lng a) = lng
    \<and> lang (documentElement (setLanguage lng a)) = languageString lng
    \<and> dir (documentElement (setLanguage lng a))
        = (if lng = ar then ascii ''rtl'' else ascii ''ltr'')
    \<and> t (activeLanguage (setLanguage lng a)) key = translations_of lng key"
  using assms by (simp add: setLanguage_def languageEffect_def t_translations_of)

theorem setLanguage_document_witness:
  "en \<noteq> activeLanguage (mount \<lparr>lang = [], dir = []\<rparr>)
   \<and> lang (documentElement (setLanguage en (mount \<lparr>lang = [], dir = []\<rparr>))) = ascii ''en''
   \<and> dir (documentElement (setLanguage en (mount \<lparr>lang = [], dir = []\<rparr>))) = ascii ''ltr''
   \<and> t (activeLanguage (setLanguage en (mount \<lparr>lang = [], dir = []\<rparr>))) errorNoText
       = translations_en errorNoText"
proof -
  have change: "en \<noteq> activeLanguage (mount \<lparr>lang = [], dir = []\<rparr>)"
    by (simp add: mount_def)
  from change setLanguage_document [OF change, of errorNoText] show ?thesis
    by auto
qed

end
